theory Spec2Isabelle
  imports Main
begin

section \<open>Python values and the exceptions of the handler\<close>

text \<open>
  \<^verbatim>\<open>bot.py\<close> is a Flask application with two JSON routes. The request body of
  \<^verbatim>\<open>/chat\<close> is whatever \<^verbatim>\<open>request.get_json()\<close> parses, and the reply of the
  model API is an object that the handler probes with \<^verbatim>\<open>getattr\<close>; neither has a
  static type in the source. Both are therefore values of one universe of Python values:
  \<^item> \<open>PDict\<close> is a \<^verbatim>\<open>dict\<close> with string keys, as an association list in insertion
    order (the first binding of a key is the dict's);
  \<^item> \<open>PObj\<close> is an object seen through its attributes only;
  \<^item> \<open>PStr\<close> is a \<^verbatim>\<open>str\<close>, one \<open>char\<close> for each code point below 256;
  \<^item> \<open>PInt\<close> stands for every JSON number: a number is nowhere subscripted, iterated
    or asked for an attribute with success, whatever its value.
\<close>

datatype pyval =
    PNone
  | PBool bool
  | PInt int
  | PStr string
  | PList "pyval list"
  | PDict "(string \<times> pyval) list"
  | PObj "(string \<times> pyval) list"

text \<open>
  Every exception below is a subclass of \<^verbatim>\<open>Exception\<close>. \<open>HTTPException\<close> is what
  \<^verbatim>\<open>request.get_json()\<close> raises on a body it cannot parse; \<open>APIError\<close> is
  \<^verbatim>\<open>google.genai.errors.APIError\<close> and carries \<^verbatim>\<open>str(e)\<close>; \<open>PyException\<close> is any
  other exception, with its message.
\<close>

datatype py_error =
    KeyError
  | TypeError
  | AttributeError
  | IndexError
  | ValueError
  | FileNotFoundError
  | HTTPException
  | APIError string
  | PyException string

text \<open>Truth value testing, as \<^verbatim>\<open>if x\<close>, \<^verbatim>\<open>x and y\<close> and \<^verbatim>\<open>not x\<close> do it.\<close>

fun truthy :: "pyval \<Rightarrow> bool" where
  "truthy PNone = False"
| "truthy (PBool b) = b"
| "truthy (PInt n) = (n \<noteq> 0)"
| "truthy (PStr s) = (s \<noteq> [])"
| "truthy (PList xs) = (xs \<noteq> [])"
| "truthy (PDict kvs) = (kvs \<noteq> [])"
| "truthy (PObj attrs) = True"

text \<open>
  \<^verbatim>\<open>obj.name\<close>: the attribute, or \<^verbatim>\<open>AttributeError\<close>. None of the names the
  handler reads (\<^verbatim>\<open>candidates\<close>, \<^verbatim>\<open>content\<close>, \<^verbatim>\<open>parts\<close>, \<^verbatim>\<open>text\<close>, \<^verbatim>\<open>web\<close>,
  \<^verbatim>\<open>uri\<close>) is an attribute of a built-in value; \<^verbatim>\<open>title\<close> is read only of a value
  whose \<^verbatim>\<open>uri\<close> was read before.
\<close>

fun py_getattr :: "pyval \<Rightarrow> string \<Rightarrow> py_error + pyval" where
  "py_getattr (PObj attrs) name =
     (case map_of attrs name of None \<Rightarrow> Inl AttributeError | Some v \<Rightarrow> Inr v)"
| "py_getattr _ name = Inl AttributeError"

text \<open>\<^verbatim>\<open>getattr(obj, name, None)\<close>: a missing attribute is \<^verbatim>\<open>None\<close>.\<close>

definition getattr_or_none :: "pyval \<Rightarrow> string \<Rightarrow> pyval" where
  "getattr_or_none obj name = (case py_getattr obj name of Inl e \<Rightarrow> PNone | Inr v \<Rightarrow> v)"

text \<open>
  \<^verbatim>\<open>x["key"]\<close> with a string key: a dict looks the key up (\<^verbatim>\<open>KeyError\<close> when it is
  absent); a list or a string wants an integer index, and nothing else is subscriptable
  (\<^verbatim>\<open>TypeError\<close>).
\<close>

fun py_getitem_key :: "pyval \<Rightarrow> string \<Rightarrow> py_error + pyval" where
  "py_getitem_key (PDict kvs) k =
     (case map_of kvs k of None \<Rightarrow> Inl KeyError | Some v \<Rightarrow> Inr v)"
| "py_getitem_key _ k = Inl TypeError"

text \<open>
  \<^verbatim>\<open>x[0]\<close>: the first element of a list, the first character of a string
  (\<^verbatim>\<open>IndexError\<close> when empty); a dict with string keys has no key \<^verbatim>\<open>0\<close>
  (\<^verbatim>\<open>KeyError\<close>); nothing else is subscriptable.
\<close>

fun py_getitem0 :: "pyval \<Rightarrow> py_error + pyval" where
  "py_getitem0 (PList xs) = (case xs of [] \<Rightarrow> Inl IndexError | x # rest \<Rightarrow> Inr x)"
| "py_getitem0 (PStr s) = (case s of [] \<Rightarrow> Inl IndexError | c # rest \<Rightarrow> Inr (PStr [c]))"
| "py_getitem0 (PDict kvs) = Inl KeyError"
| "py_getitem0 _ = Inl TypeError"

text \<open>
  The elements a \<^verbatim>\<open>for\<close> loop or a comprehension visits: those of a list, the characters
  of a string, the keys of a dict; nothing else is iterable.
\<close>

fun py_iter :: "pyval \<Rightarrow> py_error + pyval list" where
  "py_iter (PList xs) = Inr xs"
| "py_iter (PStr s) = Inr (map (\<lambda>c. PStr [c]) s)"
| "py_iter (PDict kvs) = Inr (map (\<lambda>kv. PStr (fst kv)) kvs)"
| "py_iter _ = Inl TypeError"

text \<open>\<^verbatim>\<open>d.get(key, default)\<close>: only a dict has the method.\<close>

fun py_dict_get :: "pyval \<Rightarrow> string \<Rightarrow> pyval \<Rightarrow> py_error + pyval" where
  "py_dict_get (PDict kvs) k dflt =
     Inr (case map_of kvs k of None \<Rightarrow> dflt | Some v \<Rightarrow> v)"
| "py_dict_get _ k dflt = Inl AttributeError"

text \<open>
  What Flask's JSON provider can serialise: every value but an object (the reply objects
  of the model API are not among the types it knows, and it raises \<^verbatim>\<open>TypeError\<close>).
\<close>

fun json_serializable :: "pyval \<Rightarrow> bool" where
  "json_serializable (PObj attrs) = False"
| "json_serializable (PList xs) = list_all json_serializable xs"
| "json_serializable (PDict kvs) = list_all json_serializable (map snd kvs)"
| "json_serializable _ = True"

section \<open>json.dumps\<close>

text \<open>
  \<^verbatim>\<open>json.dumps(d, indent=2)\<close> of the standard library, for a dict of strings: one
  member a line, two spaces deep, \<^verbatim>\<open>", "\<close> replaced by a comma and a line break,
  \<^verbatim>\<open>": "\<close> between key and value. With \<^verbatim>\<open>ensure_ascii\<close> (the default) a string
  keeps the characters from space to tilde but the quote and the backslash, and escapes
  the rest.
\<close>

definition nl :: string where
  "nl = [CHR 0x0A]"

definition hex_digit :: "nat \<Rightarrow> char" where
  "hex_digit d = (if d < 10 then char_of (48 + d) else char_of (87 + d))"

definition json_escape_char :: "char \<Rightarrow> string" where
  "json_escape_char c =
     (if c = CHR 0x22 then [CHR 0x5C, CHR 0x22]
      else if c = CHR 0x5C then [CHR 0x5C, CHR 0x5C]
      else if c = CHR 0x0A then [CHR 0x5C, CHR ''n'']
      else if c = CHR 0x0D then [CHR 0x5C, CHR ''r'']
      else if c = CHR 0x09 then [CHR 0x5C, CHR ''t'']
      else if c = CHR 0x08 then [CHR 0x5C, CHR ''b'']
      else if c = CHR 0x0C then [CHR 0x5C, CHR ''f'']
      else if (of_char c :: nat) < 32 \<or> 126 < (of_char c :: nat) then
        [CHR 0x5C, CHR ''u'', CHR ''0'', CHR ''0'',
         hex_digit ((of_char c :: nat) div 16), hex_digit ((of_char c :: nat) mod 16)]
      else [c])"

definition json_string :: "string \<Rightarrow> string" where
  "json_string s = [CHR 0x22] @ concat (map json_escape_char s) @ [CHR 0x22]"

definition json_member :: "string \<times> string \<Rightarrow> string" where
  "json_member kv = ''  '' @ json_string (fst kv) @ '': '' @ json_string (snd kv)"

fun join_lines :: "string list \<Rightarrow> string" where
  "join_lines [] = []"
| "join_lines [l] = l"
| "join_lines (l # ls) = l @ '','' @ nl @ join_lines ls"

definition json_dumps_indent2 :: "(string \<times> string) list \<Rightarrow> string" where
  "json_dumps_indent2 d =
     (if d = [] then ''{}''
      else ''{'' @ nl @ join_lines (map json_member d) @ nl @ ''}'')"

section \<open>The status simulator\<close>

text \<open>
  \<^verbatim>\<open>get_campus_status\<close> reads \<^verbatim>\<open>datetime.now().hour\<close>, a number from 0 to 23, which
  is the argument here. It returns the dict \<^verbatim>\<open>status_data\<close> (in insertion order) and
  the text block \<^verbatim>\<open>status_text\<close>. The label's emoji (U+1F4A1) stands as its four UTF-8
  bytes.
\<close>

definition status_label :: string where
  "status_label =
     nl @ nl @ ''# '' @ [CHR 0xF0, CHR 0x9F, CHR 0x92, CHR 0xA1]
     @ '' CURRENT CAMPUS STATUS (Use ONLY for live status queries)'' @ nl"

definition get_campus_status :: "nat \<Rightarrow> (string \<times> string) list \<times> string" where
  "get_campus_status current_hour =
     (let (ai_lab_occupancy, library_zone, server_health, wifi_status, power_source) =
        (if 9 \<le> current_hour \<and> current_hour < 16 then
           (''High (85% occupied)'', ''Moderately Busy'', ''Degraded (High Load)'',
            ''Operational (Moderate Speed)'', ''Main Grid'')
         else if 16 \<le> current_hour \<and> current_hour < 20 then
           (''Moderate (50% occupied)'', ''Quiet Zone'', ''Operational (Normal)'',
            ''Operational (Fast Speed)'', ''Main Grid'')
         else
           (''Low (5% occupied/Closed)'', ''Closed'', ''Operational (Low Load)'',
            ''Operational (Low Speed)'', ''Main Grid''));
        status_data =
          [(''AI Lab 301 Occupancy'', ai_lab_occupancy),
           (''Library Quiet Zone'', library_zone),
           (''Main Server Health'', server_health),
           (''Campus Wi-Fi Status'', wifi_status),
           (''Power Supply'', power_source)];
        status_text = status_label @ json_dumps_indent2 status_data @ nl
      in (status_data, status_text))"

text \<open>
  The three profiles as the specification names them (section 4.2), each with the strings
  of the branch it describes. The simulator above does not use them; the theorems compare
  it with them.
\<close>

definition peak_profile :: "(string \<times> string) list" where
  "peak_profile =
     [(''AI Lab 301 Occupancy'', ''High (85% occupied)''),
      (''Library Quiet Zone'', ''Moderately Busy''),
      (''Main Server Health'', ''Degraded (High Load)''),
      (''Campus Wi-Fi Status'', ''Operational (Moderate Speed)''),
      (''Power Supply'', ''Main Grid'')]"

definition evening_profile :: "(string \<times> string) list" where
  "evening_profile =
     [(''AI Lab 301 Occupancy'', ''Moderate (50% occupied)''),
      (''Library Quiet Zone'', ''Quiet Zone''),
      (''Main Server Health'', ''Operational (Normal)''),
      (''Campus Wi-Fi Status'', ''Operational (Fast Speed)''),
      (''Power Supply'', ''Main Grid'')]"

definition off_hours_profile :: "(string \<times> string) list" where
  "off_hours_profile =
     [(''AI Lab 301 Occupancy'', ''Low (5% occupied/Closed)''),
      (''Library Quiet Zone'', ''Closed''),
      (''Main Server Health'', ''Operational (Low Load)''),
      (''Campus Wi-Fi Status'', ''Operational (Low Speed)''),
      (''Power Supply'', ''Main Grid'')]"

section \<open>HTTP responses and the status route\<close>

text \<open>
  A response of \<^verbatim>\<open>jsonify\<close> is the status code and the JSON value of its body
  (\<^verbatim>\<open>jsonify(x)\<close> alone answers 200; \<^verbatim>\<open>jsonify(x), 500\<close> answers 500).
\<close>

record http_response =
  http_status :: nat
  http_body :: pyval

definition dict_of_strings :: "(string \<times> string) list \<Rightarrow> pyval" where
  "dict_of_strings d = PDict (map (\<lambda>kv. (fst kv, PStr (snd kv))) d)"

definition status :: "nat \<Rightarrow> http_response" where
  "status current_hour =
     (let (status_data, unused) = get_campus_status current_hour
      in \<lparr>http_status = 200, http_body = dict_of_strings status_data\<rparr>)"

section \<open>Start-up\<close>

text \<open>
  The module's top level, run once before any request is served: it reads the credential
  \<^verbatim>\<open>BOT_API_KEY\<close> from the environment (\<open>None\<close> when unset) and raises
  \<^verbatim>\<open>ValueError\<close> when it is unset or empty; it constructs the client, which returns a
  client object or raises; it reads the transportation file, re-raising
  \<^verbatim>\<open>FileNotFoundError\<close> and letting any other failure through. An exception at the top
  level ends the process. The client is the function that answers
  \<^verbatim>\<open>client.models.generate_content\<close>: it raises or returns the reply object.
\<close>

record api_request =
  req_model :: string
  req_contents :: "pyval list"
  req_system_instruction :: string
  req_tools :: pyval

datatype api_outcome = Raises py_error | Returns pyval

type_synonym genai_client = "api_request \<Rightarrow> api_outcome"

record server =
  client :: "genai_client option"
  TRANSPORT_DATA :: string

definition load_transport_data :: "py_error + string \<Rightarrow> py_error + string" where
  "load_transport_data file =
     (case file of
        Inl FileNotFoundError \<Rightarrow> Inl FileNotFoundError
      | Inl e \<Rightarrow> Inl e
      | Inr contents \<Rightarrow> Inr contents)"

definition startup ::
  "string option \<Rightarrow> (string \<Rightarrow> py_error + genai_client) \<Rightarrow> py_error + string
     \<Rightarrow> py_error + server" where
  "startup getenv_key new_client file =
     (case getenv_key of
        None \<Rightarrow> Inl ValueError
      | Some API_KEY \<Rightarrow>
          if API_KEY = [] then Inl ValueError
          else (case new_client API_KEY of
                  Inl e \<Rightarrow> Inl e
                | Inr c \<Rightarrow>
                    (case load_transport_data file of
                       Inl e \<Rightarrow> Inl e
                     | Inr contents \<Rightarrow>
                         Inr \<lparr>client = Some c, TRANSPORT_DATA = contents\<rparr>)))"

section \<open>The chat route\<close>

subsection \<open>The system prompt\<close>

text \<open>
  The f-string of the handler: every line of the literal is indented by eight spaces, the
  blank ones too, and the two emoji (U+1F4DA, U+1F68C) stand as their UTF-8 bytes.
\<close>

definition indent8 :: string where
  "indent8 = ''        ''"

definition prompt_intro :: "string list" where
  "prompt_intro =
     [''You are QIS Bot, the official AI Admissions Counselor for QIS College of Engineering and Technology (QISCET), Ongole.'',
      ''Your mission is to provide concise, accurate, and helpful information to prospective students.'',
      [],
      ''CRITICAL INSTRUCTIONS:'',
      ''1. **Be Concise:** Keep answers brief (2-3 sentences max) and professional.'',
      ''2. **Use Search Tool:** Use the Google Search tool for current, general information (like admissions, specific courses, fees, and job placements).'',
      ''3. **Use Embedded Data:** Use the provided TRANSPORTATION DATA and CAMPUS STATUS below to answer specific questions.'',
      ''4. **Maintain Persona:** Maintain a friendly, supportive tone.'',
      [],
      ''---'',
      [],
      ''# '' @ [CHR 0xF0, CHR 0x9F, CHR 0x93, CHR 0x9A] @ '' QISCET KEY FACTS'',
      ''- Location: Vengamukkapalem, Ongole, Prakasam District, Andhra Pradesh.'',
      ''- Affiliation: Jawaharlal Nehru Technological University (JNTUK), Kakinada.'',
      ''- Programs: B.Tech (CSE, ECE, EEE, Mechanical, Civil, IT, AI & ML, Data Science), M.Tech, MBA, MCA.'',
      [],
      ''---'',
      [],
      ''# '' @ [CHR 0xF0, CHR 0x9F, CHR 0x9A, CHR 0x8C]
        @ '' TRANSPORTATION DATA (Use ONLY for bus/route/driver queries)'']"

definition prompt_line :: "string \<Rightarrow> string" where
  "prompt_line l = indent8 @ l @ nl"

definition system_prompt :: "string \<Rightarrow> string \<Rightarrow> string" where
  "system_prompt transport_data status_text =
     nl @ concat (map prompt_line prompt_intro)
     @ prompt_line transport_data
     @ prompt_line [] @ prompt_line ''---'' @ prompt_line []
     @ prompt_line status_text
     @ prompt_line []
     @ indent8"

subsection \<open>Steps 1 to 3: the request to the model API\<close>

text \<open>
  One turn in the API's format:
  \<^verbatim>\<open>{"role": r, "parts": [{"text": t}]}\<close>.
\<close>

definition api_turn :: "pyval \<Rightarrow> pyval \<Rightarrow> pyval" where
  "api_turn r t = PDict [(''role'', r), (''parts'', PList [PDict [(''text'', t)]])]"

text \<open>
  The loop \<^verbatim>\<open>for message in history: full_history.append(...)\<close>, with the list built
  so far as the accumulator. \<^verbatim>\<open>message["role"]\<close> is evaluated before
  \<^verbatim>\<open>message["text"]\<close>; the first exception leaves the loop.
\<close>

fun append_turns :: "pyval list \<Rightarrow> pyval list \<Rightarrow> py_error + pyval list" where
  "append_turns full_history [] = Inr full_history"
| "append_turns full_history (message # rest) =
     (case py_getitem_key message ''role'' of
        Inl e \<Rightarrow> Inl e
      | Inr r \<Rightarrow>
          (case py_getitem_key message ''text'' of
             Inl e \<Rightarrow> Inl e
           | Inr t \<Rightarrow> append_turns (full_history @ [api_turn r t]) rest))"

definition build_full_history :: "pyval \<Rightarrow> pyval \<Rightarrow> py_error + pyval list" where
  "build_full_history history user_message =
     (case py_iter history of
        Inl e \<Rightarrow> Inl e
      | Inr messages \<Rightarrow>
          (case append_turns [] messages of
             Inl e \<Rightarrow> Inl e
           | Inr full_history \<Rightarrow>
               Inr (full_history @ [api_turn (PStr ''user'') user_message])))"

text \<open>
  The handler up to the call: \<open>get_json\<close> is what \<^verbatim>\<open>request.get_json()\<close> did (it
  raised, or returned the parsed body).
\<close>

definition build_request ::
  "string \<Rightarrow> nat \<Rightarrow> py_error + pyval \<Rightarrow> py_error + api_request" where
  "build_request transport_data current_hour get_json =
     (case get_json of
        Inl e \<Rightarrow> Inl e
      | Inr data \<Rightarrow>
          (case py_dict_get data ''message'' (PStr []) of
             Inl e \<Rightarrow> Inl e
           | Inr user_message \<Rightarrow>
               (case py_dict_get data ''history'' (PList []) of
                  Inl e \<Rightarrow> Inl e
                | Inr history \<Rightarrow>
                    (let (unused, status_text) = get_campus_status current_hour;
                         prompt = system_prompt transport_data status_text
                     in case build_full_history history user_message of
                          Inl e \<Rightarrow> Inl e
                        | Inr full_history \<Rightarrow>
                            Inr \<lparr>req_model = ''gemini-2.5-flash'',
                                 req_contents = full_history,
                                 req_system_instruction = prompt,
                                 req_tools = PList [PDict [(''google_search'', PDict [])]]\<rparr>))))"

subsection \<open>Step 5: text and sources of the reply\<close>

text \<open>
  The comprehension over \<^verbatim>\<open>grounding_attributions\<close>. Its condition is
  \<^verbatim>\<open>getattr(attr, 'web', None) and attr.web.uri and attr.web.title\<close>, evaluated from
  the left and stopped at the first falsy value; \<^verbatim>\<open>attr.web\<close> is the value
  \<^verbatim>\<open>getattr\<close> found, since it was truthy.
\<close>

fun collect_sources :: "pyval list \<Rightarrow> py_error + pyval list" where
  "collect_sources [] = Inr []"
| "collect_sources (attr # rest) =
     (if truthy (getattr_or_none attr ''web'') then
        (case py_getattr (getattr_or_none attr ''web'') ''uri'' of
           Inl e \<Rightarrow> Inl e
         | Inr uri \<Rightarrow>
             if truthy uri then
               (case py_getattr (getattr_or_none attr ''web'') ''title'' of
                  Inl e \<Rightarrow> Inl e
                | Inr title \<Rightarrow>
                    if truthy title then
                      (case collect_sources rest of
                         Inl e \<Rightarrow> Inl e
                       | Inr sources \<Rightarrow>
                           Inr (PDict [(''uri'', uri), (''title'', title)] # sources))
                    else collect_sources rest)
             else collect_sources rest)
      else collect_sources rest)"

text \<open>
  The block under \<^verbatim>\<open># 5. Extract text and sources with safety checks\<close>: the pair
  \<^verbatim>\<open>(response_text, sources)\<close> it leaves, or the exception it raises.
\<close>

definition extract_sources :: "pyval \<Rightarrow> py_error + pyval list" where
  "extract_sources candidate =
     (let grounding_metadata = getattr_or_none candidate ''grounding_metadata''
      in if truthy grounding_metadata
            \<and> truthy (getattr_or_none grounding_metadata ''grounding_attributions'')
         then (case py_iter (getattr_or_none grounding_metadata ''grounding_attributions'') of
                 Inl e \<Rightarrow> Inl e
               | Inr attrs \<Rightarrow> collect_sources attrs)
         else Inr [])"

definition extract_reply :: "pyval \<Rightarrow> py_error + pyval \<times> pyval list" where
  "extract_reply response =
     (case py_getattr response ''candidates'' of
        Inl e \<Rightarrow> Inl e
      | Inr candidates \<Rightarrow>
          if \<not> truthy candidates then Inr (PStr [], [])
          else
            (case py_getitem0 candidates of
               Inl e \<Rightarrow> Inl e
             | Inr candidate \<Rightarrow>
                 (case py_getattr candidate ''content'' of
                    Inl e \<Rightarrow> Inl e
                  | Inr content \<Rightarrow>
                      if \<not> truthy content then Inr (PStr [], [])
                      else
                        (case py_getattr content ''parts'' of
                           Inl e \<Rightarrow> Inl e
                         | Inr parts \<Rightarrow>
                             (case py_getitem0 parts of
                                Inl e \<Rightarrow> Inl e
                              | Inr part \<Rightarrow>
                                  (case py_getattr part ''text'' of
                                     Inl e \<Rightarrow> Inl e
                                   | Inr response_text \<Rightarrow>
                                       (case extract_sources candidate of
                                          Inl e \<Rightarrow> Inl e
                                        | Inr sources \<Rightarrow>
                                            Inr (response_text, sources))))))))"

text \<open>
  The end of the \<^verbatim>\<open>try\<close> block: an empty text raises, anything else is handed to
  \<^verbatim>\<open>jsonify\<close>.
\<close>

definition reply_ok :: "pyval \<Rightarrow> pyval list \<Rightarrow> http_response" where
  "reply_ok response_text sources =
     \<lparr>http_status = 200,
      http_body = PDict [(''response'', response_text), (''sources'', PList sources)]\<rparr>"

definition finish_reply :: "pyval \<times> pyval list \<Rightarrow> py_error + http_response" where
  "finish_reply extracted =
     (let (response_text, sources) = extracted
      in if \<not> truthy response_text then
           Inl (PyException ''API returned an empty text response.'')
         else if json_serializable (http_body (reply_ok response_text sources)) then
           Inr (reply_ok response_text sources)
         else Inl TypeError)"

subsection \<open>The handler\<close>

text \<open>
  The body of the \<^verbatim>\<open>try\<close> block. Beside its outcome it returns the requests it
  submitted to the model API, in order: none when it fails before the call, one
  otherwise.
\<close>

definition chat_try ::
  "genai_client \<Rightarrow> string \<Rightarrow> nat \<Rightarrow> py_error + pyval
     \<Rightarrow> api_request list \<times> (py_error + http_response)" where
  "chat_try generate_content transport_data current_hour get_json =
     (case build_request transport_data current_hour get_json of
        Inl e \<Rightarrow> ([], Inl e)
      | Inr rq \<Rightarrow>
          (case generate_content rq of
             Raises e \<Rightarrow> ([rq], Inl e)
           | Returns response \<Rightarrow>
               (case extract_reply response of
                  Inl e \<Rightarrow> ([rq], Inl e)
                | Inr extracted \<Rightarrow> ([rq], finish_reply extracted))))"

definition generic_error :: http_response where
  "generic_error =
     \<lparr>http_status = 500,
      http_body = PDict [(''error'',
        PStr ''An unexpected server error occurred. Please check the terminal for details.'')]\<rparr>"

definition api_error_prefix :: string where
  "api_error_prefix = ''The Gemini AI service is currently unavailable. (API Error: ''"

definition api_error_response :: "string \<Rightarrow> http_response" where
  "api_error_response msg =
     \<lparr>http_status = 500,
      http_body = PDict [(''error'', PStr (api_error_prefix @ take 50 msg @ ''...)''))]\<rparr>"

text \<open>
  \<^verbatim>\<open>chat\<close>: the check of the client before the \<^verbatim>\<open>try\<close>, then the two
  \<^verbatim>\<open>except\<close> clauses in their order (\<^verbatim>\<open>APIError\<close> first, \<^verbatim>\<open>Exception\<close> for the
  rest). Printing to the terminal is left out.
\<close>

definition chat ::
  "genai_client option \<Rightarrow> string \<Rightarrow> nat \<Rightarrow> py_error + pyval
     \<Rightarrow> api_request list \<times> http_response" where
  "chat the_client transport_data current_hour get_json =
     (case the_client of
        None \<Rightarrow> ([], generic_error)
      | Some generate_content \<Rightarrow>
          (case chat_try generate_content transport_data current_hour get_json of
             (calls, Inr response) \<Rightarrow> (calls, response)
           | (calls, Inl (APIError msg)) \<Rightarrow> (calls, api_error_response msg)
           | (calls, Inl e) \<Rightarrow> (calls, generic_error)))"

text \<open>A request served by the process that start-up left.\<close>

definition serve_chat ::
  "server \<Rightarrow> nat \<Rightarrow> py_error + pyval \<Rightarrow> api_request list \<times> http_response" where
  "serve_chat srv current_hour get_json =
     chat (client srv) (TRANSPORT_DATA srv) current_hour get_json"

section \<open>A conversation turn, as the specification reads it\<close>

text \<open>
  The specification's conversation turn is \<^verbatim>\<open>{role, text}\<close>, and its API form keeps
  the role and wraps the text as the single part. \<open>turn_as_sent\<close> is that reading, for
  stating what the handler submits; the handler above does not use it. A history item
  that is no dict, or lacks one of the two keys, has no API form.
\<close>

fun turn_as_sent :: "pyval \<Rightarrow> pyval option" where
  "turn_as_sent (PDict kvs) =
     (case map_of kvs ''role'' of
        None \<Rightarrow> None
      | Some r \<Rightarrow>
          (case map_of kvs ''text'' of
             None \<Rightarrow> None
           | Some t \<Rightarrow> Some (api_turn r t)))"
| "turn_as_sent _ = None"

section \<open>Properties of the status simulator\<close>

lemma get_campus_status_peak:
  "9 \<le> h \<Longrightarrow> h < 16 \<Longrightarrow> fst (get_campus_status h) = peak_profile"
  by (simp add: get_campus_status_def peak_profile_def Let_def)

lemma get_campus_status_evening:
  "16 \<le> h \<Longrightarrow> h < 20 \<Longrightarrow> fst (get_campus_status h) = evening_profile"
  by (simp add: get_campus_status_def evening_profile_def Let_def)

lemma get_campus_status_off:
  "h < 9 \<or> 20 \<le> h \<Longrightarrow> fst (get_campus_status h) = off_hours_profile"
  by (auto simp add: get_campus_status_def off_hours_profile_def Let_def)

lemma profiles_distinct:
  "peak_profile \<noteq> evening_profile"
  "peak_profile \<noteq> off_hours_profile"
  "evening_profile \<noteq> off_hours_profile"
  by (simp_all add: peak_profile_def evening_profile_def off_hours_profile_def)

text \<open>
  C2. For every hour the simulator returns the peak profile exactly when the hour is in
  [9,16), the evening profile exactly when it is in [16,20), and the off-hours profile
  exactly for every other hour; the boundary hours 8, 9, 15, 16, 19, 20, 23 and 0 fall
  in the off-hours, peak, peak, evening, evening, off-hours, off-hours and off-hours
  branches.
\<close>

theorem C2_status_profile_by_hour:
  "(fst (get_campus_status h) = peak_profile \<longleftrightarrow> 9 \<le> h \<and> h < 16)
   \<and> (fst (get_campus_status h) = evening_profile \<longleftrightarrow> 16 \<le> h \<and> h < 20)
   \<and> (fst (get_campus_status h) = off_hours_profile \<longleftrightarrow> h < 9 \<or> 20 \<le> h)
   \<and> fst (get_campus_status 8) = off_hours_profile
   \<and> fst (get_campus_status 9) = peak_profile
   \<and> fst (get_campus_status 15) = peak_profile
   \<and> fst (get_campus_status 16) = evening_profile
   \<and> fst (get_campus_status 19) = evening_profile
   \<and> fst (get_campus_status 20) = off_hours_profile
   \<and> fst (get_campus_status 23) = off_hours_profile
   \<and> fst (get_campus_status 0) = off_hours_profile"
proof -
  consider (peak) "9 \<le> h" "h < 16" | (evening) "16 \<le> h" "h < 20" | (off) "h < 9 \<or> 20 \<le> h"
    by linarith
  then have general:
    "(fst (get_campus_status h) = peak_profile \<longleftrightarrow> 9 \<le> h \<and> h < 16)
     \<and> (fst (get_campus_status h) = evening_profile \<longleftrightarrow> 16 \<le> h \<and> h < 20)
     \<and> (fst (get_campus_status h) = off_hours_profile \<longleftrightarrow> h < 9 \<or> 20 \<le> h)"
  proof cases
    case peak
    then show ?thesis
      using get_campus_status_peak [of h] profiles_distinct by auto
  next
    case evening
    then show ?thesis
      using get_campus_status_evening [of h] profiles_distinct by auto
  next
    case off
    then show ?thesis
      using get_campus_status_off [of h] profiles_distinct by auto
  qed
  have "fst (get_campus_status 8) = off_hours_profile"
    "fst (get_campus_status 20) = off_hours_profile"
    "fst (get_campus_status 23) = off_hours_profile"
    "fst (get_campus_status 0) = off_hours_profile"
    by (simp_all add: get_campus_status_off)
  moreover have "fst (get_campus_status 9) = peak_profile"
    "fst (get_campus_status 15) = peak_profile"
    by (simp_all add: get_campus_status_peak)
  moreover have "fst (get_campus_status 16) = evening_profile"
    "fst (get_campus_status 19) = evening_profile"
    by (simp_all add: get_campus_status_evening)
  ultimately show ?thesis using general by simp
qed

theorem C2_status_profile_by_hour_witness:
  "fst (get_campus_status 12) = peak_profile
   \<and> fst (get_campus_status 17) = evening_profile
   \<and> fst (get_campus_status 3) = off_hours_profile
   \<and> fst (get_campus_status 16) \<noteq> peak_profile"
  using C2_status_profile_by_hour [of 12] C2_status_profile_by_hour [of 17]
    C2_status_profile_by_hour [of 3] C2_status_profile_by_hour [of 16]
  by (simp add: profiles_distinct(1) [symmetric])

text \<open>
  C8. For every hour the status route answers 200 with a JSON object of exactly the five
  documented keys, each bound to a string.
\<close>

theorem C8_status_route_five_keys:
  "\<exists>a b c d e. status h =
     \<lparr>http_status = 200,
      http_body = PDict [(''AI Lab 301 Occupancy'', PStr a), (''Library Quiet Zone'', PStr b),
        (''Main Server Health'', PStr c), (''Campus Wi-Fi Status'', PStr d),
        (''Power Supply'', PStr e)]\<rparr>"
  by (simp add: status_def get_campus_status_def dict_of_strings_def Let_def)


section \<open>Properties of the chat route\<close>

lemma turn_as_sent_Some:
  "turn_as_sent m = Some turn \<Longrightarrow>
     \<exists>r t. py_getitem_key m ''role'' = Inr r \<and> py_getitem_key m ''text'' = Inr t
           \<and> turn = api_turn r t"
  by (cases m) (auto split: option.splits)

lemma append_turns_sent:
  "map turn_as_sent history = map Some turns \<Longrightarrow>
     append_turns acc history = Inr (acc @ turns)"
proof (induction history arbitrary: acc turns)
  case Nil
  then show ?case by simp
next
  case (Cons m ms)
  from Cons.prems obtain t ts where turns: "turns = t # ts"
    and m: "turn_as_sent m = Some t" and ms: "map turn_as_sent ms = map Some ts"
    by (cases turns) auto
  from turn_as_sent_Some [OF m] obtain r x where
    "py_getitem_key m ''role'' = Inr r" "py_getitem_key m ''text'' = Inr x" "t = api_turn r x"
    by blast
  then show ?case
    using Cons.IH [OF ms, of "acc @ [api_turn r x]"] turns by simp
qed

lemma build_full_history_list:
  "map turn_as_sent history = map Some turns \<Longrightarrow>
     build_full_history (PList history) user_message =
       Inr (turns @ [api_turn (PStr ''user'') user_message])"
  using append_turns_sent [of history turns "[]"]
  by (simp add: build_full_history_def)

lemma build_request_dict:
  "build_full_history
      (case map_of body ''history'' of None \<Rightarrow> PList [] | Some v \<Rightarrow> v)
      (case map_of body ''message'' of None \<Rightarrow> PStr [] | Some v \<Rightarrow> v) = Inr full_history
   \<Longrightarrow> \<exists>rq. build_request transport_data h (Inr (PDict body)) = Inr rq
            \<and> req_contents rq = full_history"
  by (simp add: build_request_def split: prod.splits)

lemma chat_calls:
  "build_request transport_data h get_json = Inr rq \<Longrightarrow>
     fst (chat (Some generate_content) transport_data h get_json) = [rq]"
  by (simp add: chat_def chat_try_def split: api_outcome.splits sum.splits prod.splits py_error.splits)

lemma chat_no_call:
  "build_request transport_data h get_json = Inl e \<Longrightarrow>
     fst (chat (Some generate_content) transport_data h get_json) = []"
  by (simp add: chat_def chat_try_def split: py_error.splits)

text \<open>
  C1. For every history that is a list of turns, each a dict with a role and a text, and
  every new message, the handler submits one request to the model API whose turn sequence
  has length \<open>len(history) + 1\<close>: first the history turns in their order, role kept and
  text wrapped as the single part, last a turn with role \<^verbatim>\<open>user\<close> and the new message
  as its text.
\<close>

theorem C1_history_then_user_turn:
  assumes "map_of body ''message'' = Some user_message"
    and "map_of body ''history'' = Some (PList history)"
    and "map turn_as_sent history = map Some turns"
  shows "\<exists>rq. fst (chat (Some generate_content) transport_data h (Inr (PDict body))) = [rq]
           \<and> req_contents rq = turns @ [api_turn (PStr ''user'') user_message]
           \<and> length (req_contents rq) = length history + 1"
proof -
  have "build_full_history
          (case map_of body ''history'' of None \<Rightarrow> PList [] | Some v \<Rightarrow> v)
          (case map_of body ''message'' of None \<Rightarrow> PStr [] | Some v \<Rightarrow> v)
        = Inr (turns @ [api_turn (PStr ''user'') user_message])"
    using assms build_full_history_list by simp
  from build_request_dict [OF this] obtain rq where
    rq: "build_request transport_data h (Inr (PDict body)) = Inr rq"
    and contents: "req_contents rq = turns @ [api_turn (PStr ''user'') user_message]"
    by blast
  have "length turns = length history"
    using assms(3) by (metis length_map)
  with chat_calls [OF rq] contents show ?thesis by simp
qed

theorem C1_history_then_user_turn_witness:
  "\<exists>rq. fst (chat (Some (\<lambda>rq. Raises TypeError)) ''bus data'' 10
            (Inr (PDict [(''message'', PStr ''What bus goes to Ongole?''),
               (''history'', PList
                  [PDict [(''role'', PStr ''user''), (''text'', PStr ''hello'')],
                   PDict [(''text'', PStr ''Hi, how can I help?''), (''role'', PStr ''model'')]])]))) = [rq]
     \<and> req_contents rq =
         [PDict [(''role'', PStr ''user''), (''parts'', PList [PDict [(''text'', PStr ''hello'')]])],
          PDict [(''role'', PStr ''model''), (''parts'', PList [PDict [(''text'', PStr ''Hi, how can I help?'')]])],
          PDict [(''role'', PStr ''user''), (''parts'', PList [PDict [(''text'', PStr ''What bus goes to Ongole?'')]])]]"
  using C1_history_then_user_turn [of
      "[(''message'', PStr ''What bus goes to Ongole?''),
        (''history'', PList
           [PDict [(''role'', PStr ''user''), (''text'', PStr ''hello'')],
            PDict [(''text'', PStr ''Hi, how can I help?''), (''role'', PStr ''model'')]])]"
      "PStr ''What bus goes to Ongole?''"
      "[PDict [(''role'', PStr ''user''), (''text'', PStr ''hello'')],
        PDict [(''text'', PStr ''Hi, how can I help?''), (''role'', PStr ''model'')]]"
      "[api_turn (PStr ''user'') (PStr ''hello''),
        api_turn (PStr ''model'') (PStr ''Hi, how can I help?'')]"
      "\<lambda>rq. Raises TypeError" "''bus data''" 10]
  by (simp add: api_turn_def) blast

end
